theory Spec2Isabelle
  imports Main "HOL-Library.AList"
begin

section \<open>JavaScript values\<close>

text \<open>
  Metadata values, thrown values and the argument of \<^verbatim>\<open>error(message, error, metadata)\<close> have
  type \<^verbatim>\<open>any\<close> / \<^verbatim>\<open>unknown\<close> in the source.  The fragment of JavaScript values modelled here:
  the primitives, plain data objects and instances of \<^verbatim>\<open>Error\<close>.  No value of the fragment
  is callable.

  \<^item> \<open>JNum n\<close> is a number whose value is a safe integer (magnitude at most \<open>2^53 - 1\<close>, held
    exactly by a double; \<open>-0\<close> is not told from \<open>0\<close>); \<open>JNaN\<close> is NaN.
  \<^item> \<open>JObj ps\<close> is a plain object (prototype \<^verbatim>\<open>Object.prototype\<close>) with the enumerable own
    properties \<open>ps\<close>, in the order \<^verbatim>\<open>Object.keys\<close> lists them.
  \<^item> \<open>JError n m s ps\<close> is an object for which \<^verbatim>\<open>instanceof Error\<close> holds (prototype
    \<^verbatim>\<open>Error.prototype\<close>): \<open>n\<close>, \<open>m\<close> and \<open>s\<close> are what reading \<^verbatim>\<open>.name\<close>, \<^verbatim>\<open>.message\<close> and \<^verbatim>\<open>.stack\<close>
    yields (\<open>JUndefined\<close> when there is none), and \<open>ps\<close> are its enumerable own properties.
\<close>

typedef safe_integer = "{n :: int. - 9007199254740991 \<le> n \<and> n \<le> 9007199254740991}"
  morphisms int_of_safe Abs_safe_integer
  by (rule exI [of _ 0]) simp

setup_lifting type_definition_safe_integer

text \<open>The number written \<open>n\<close> in the source, for \<open>n\<close> in the safe range.\<close>

lift_definition num :: "int \<Rightarrow> safe_integer" is
  "\<lambda>n. if - 9007199254740991 \<le> n \<and> n \<le> 9007199254740991 then n else 0"
  by simp

datatype jsval =
    JUndefined
  | JNull
  | JBool bool
  | JNum safe_integer
  | JNaN
  | JStr string
  | JObj "(string \<times> jsval) list"
  | JError (err_name: jsval) (err_message: jsval) (err_stack: jsval)
      (err_own: "(string \<times> jsval) list")

type_synonym props = "(string \<times> jsval) list"

text \<open>
  What a \<^verbatim>\<open>throw\<close> hands to the caller: a \<^verbatim>\<open>TypeError\<close> the language itself raises, or a value
  thrown by code outside the logger (an output function, the request context).
\<close>

datatype exn = TypeError | Thrown jsval

datatype 'a completion = Return 'a | Throw exn

text \<open>ToBoolean: the test behind \<^verbatim>\<open>if (x)\<close>, \<^verbatim>\<open>!x\<close> and \<^verbatim>\<open>x && y\<close>.\<close>

fun truthy :: "jsval \<Rightarrow> bool" where
  "truthy JUndefined = False"
| "truthy JNull = False"
| "truthy (JBool b) = b"
| "truthy (JNum n) = (int_of_safe n \<noteq> 0)"
| "truthy JNaN = False"
| "truthy (JStr s) = (s \<noteq> [])"
| "truthy (JObj ps) = True"
| "truthy (JError n m s ps) = True"

text \<open>\<^verbatim>\<open>error instanceof Error\<close>\<close>

fun instanceof_Error :: "jsval \<Rightarrow> bool" where
  "instanceof_Error (JError n m s ps) = True"
| "instanceof_Error v = False"

text \<open>Decimal digits of a natural number, for the text of a number.\<close>

fun string_of_nat :: "nat \<Rightarrow> string" where
  "string_of_nat n =
     (if n < 10 then [''0123456789'' ! n]
      else string_of_nat (n div 10) @ [''0123456789'' ! (n mod 10)])"

declare string_of_nat.simps [simp del]

subsection \<open>Objects as property lists\<close>

text \<open>\<^verbatim>\<open>Object.keys(o)\<close> and the property read \<^verbatim>\<open>o[key]\<close> (\<^verbatim>\<open>undefined\<close> for a missing key).\<close>

definition Object_keys :: "props \<Rightarrow> string list" where
  "Object_keys ps = map fst ps"

definition get_prop :: "props \<Rightarrow> string \<Rightarrow> jsval" where
  "get_prop ps k = (case map_of ps k of Some v \<Rightarrow> v | None \<Rightarrow> JUndefined)"

text \<open>
  The assignment \<^verbatim>\<open>o[key] = v\<close> on a plain object.  A key already there keeps its place and
  takes the new value, a new key goes to the end (\<open>AList.update\<close>).  For the key
  \<^verbatim>\<open>__proto__\<close> the assignment runs the setter \<^verbatim>\<open>Object.prototype\<close> has for it: no own property
  is defined.  (The setter may replace the prototype of \<open>o\<close>; the logger reads nothing
  through the prototype of an object it has assigned to.)
\<close>

definition set_prop :: "props \<Rightarrow> string \<Rightarrow> jsval \<Rightarrow> props" where
  "set_prop obj k v = (if k = ''__proto__'' then obj else AList.update k v obj)"

subsection \<open>Conversion to a string\<close>

text \<open>
  \<^verbatim>\<open>String(v)\<close>.  A primitive has its text.  An object is converted by its \<^verbatim>\<open>toString\<close>
  method, then by \<^verbatim>\<open>valueOf\<close>: an own property \<open>toString\<close> hides the inherited method and, as
  no value of the fragment is callable, is skipped; \<^verbatim>\<open>valueOf\<close> (own: not callable;
  inherited: returns the object itself) gives no primitive either, so the conversion throws
  a \<^verbatim>\<open>TypeError\<close>.  Without an own \<open>toString\<close> a plain object has the text of
  \<^verbatim>\<open>Object.prototype.toString\<close> and an \<^verbatim>\<open>Error\<close> that of \<^verbatim>\<open>Error.prototype.toString\<close>.  The logger
  never converts an \<^verbatim>\<open>Error\<close> (\<^verbatim>\<open>serializeError\<close> takes the \<^verbatim>\<open>instanceof\<close> branch first).
\<close>

fun js_String :: "jsval \<Rightarrow> string completion" where
  "js_String JUndefined = Return ''undefined''"
| "js_String JNull = Return ''null''"
| "js_String (JBool b) = Return (if b then ''true'' else ''false'')"
| "js_String (JNum n) =
     Return (if int_of_safe n < 0 then ''-'' @ string_of_nat (nat (- int_of_safe n))
             else string_of_nat (nat (int_of_safe n)))"
| "js_String JNaN = Return ''NaN''"
| "js_String (JStr s) = Return s"
| "js_String (JObj ps) =
     (if ''toString'' \<in> set (Object_keys ps) then Throw TypeError
      else Return ''[object Object]'')"
| "js_String (JError n m s ps) =
     (if ''toString'' \<in> set (Object_keys ps) then Throw TypeError
      else case (if n = JUndefined then Return ''Error'' else js_String n) of
             Throw x \<Rightarrow> Throw x
           | Return name \<Rightarrow>
               (case (if m = JUndefined then Return [] else js_String m) of
                  Throw x \<Rightarrow> Throw x
                | Return msg \<Rightarrow>
                    Return (if name = [] then msg else if msg = [] then name
                            else name @ '': '' @ msg)))"

subsection \<open>Object spread\<close>

text \<open>
  One spread element \<^verbatim>\<open>...src\<close> of an object literal whose properties so far are \<open>target\<close>:
  for every own enumerable key of \<open>src\<close>, in order, the value is read and defined on the
  target (defined, not assigned: no setter runs, so \<^verbatim>\<open>__proto__\<close> is copied like any other
  key).  A key already there keeps its place and takes the new value (\<open>AList.update\<close>); a
  new key goes to the end.  (JavaScript lists array-index keys before
  the others; the order of keys matters to none of the results below, which read objects
  through \<open>map_of\<close>.)
\<close>

definition spread :: "props \<Rightarrow> props \<Rightarrow> props" where
  "spread target src =
     foldl (\<lambda>acc k. AList.update k (get_prop src k) acc) target (Object_keys src)"

text \<open>Spreading \<^verbatim>\<open>undefined\<close> (an optional argument left out) copies nothing.\<close>

fun spread_opt :: "props \<Rightarrow> props option \<Rightarrow> props" where
  "spread_opt target None = target"
| "spread_opt target (Some src) = spread target src"

section \<open>The data model (interfaces/ILogger.ts)\<close>

datatype LogLevel = Debug | Info | Warn | Error

type_synonym LogMetadata = props

text \<open>
  \<^verbatim>\<open>LogEntry\<close>.  An optional field that is not set is \<open>None\<close>.  \<open>timestamp\<close> is the instant
  (milliseconds since the epoch) that the ISO 8601 text \<^verbatim>\<open>new Date().toISOString()\<close> denotes.
\<close>

record LogEntry =
  level :: LogLevel
  message :: string
  timestamp :: int
  metadata :: "LogMetadata option"
  traceId :: "jsval option"
  requestId :: "jsval option"
  userId :: "jsval option"
  error :: "jsval option"

section \<open>The world around the logger\<close>

text \<open>
  \<^verbatim>\<open>RequestContext.current()\<close> of \<^verbatim>\<open>@struktos/core\<close> is an external collaborator.  It throws,
  returns nothing, or returns a context whose \<^verbatim>\<open>get(key)\<close> returns a value or throws.
\<close>

datatype ambient =
    Unavailable exn
  | Absent
  | Active "string \<Rightarrow> jsval completion"

text \<open>
  What the default sink writes: the console method chosen by the level, and the text
  \<^verbatim>\<open>JSON.stringify(entry, null, indent)\<close>, kept symbolic.
\<close>

datatype json_text = JSON_stringify LogEntry nat

datatype console_method = console_debug | console_info | console_warn | console_error

text \<open>
  The state a logging call can read or change: the system clock (\<open>now\<close>, what
  \<^verbatim>\<open>new Date()\<close> reads), the ambient request context, the console, and the state \<open>sink\<close>
  that belongs to a custom output function.
\<close>

record 's world =
  now :: int
  ambient :: ambient
  console :: "(console_method \<times> json_text) list"
  sink :: 's

text \<open>
  An output function \<^verbatim>\<open>(entry: LogEntry) => void\<close> is user code: it may change the world and
  it may throw (\<open>Some\<close> of the thrown value).
\<close>

type_synonym 's output_fn = "LogEntry \<Rightarrow> 's world \<Rightarrow> exn option \<times> 's world"

section \<open>core/StruktosLogger.ts\<close>

text \<open>\<^verbatim>\<open>StruktosLoggerOptions\<close>: every option may be left out.\<close>

record 's StruktosLoggerOptions =
  minLevel_opt :: "LogLevel option"
  prettyPrint_opt :: "bool option"
  includeStackTrace_opt :: "bool option"
  defaultMetadata_opt :: "LogMetadata option"
  output_opt :: "'s output_fn option"
  enrichWithContext_opt :: "bool option"

text \<open>\<^verbatim>\<open>Required<StruktosLoggerOptions>\<close>, the type of the private field \<^verbatim>\<open>options\<close>.\<close>

record 's Required_StruktosLoggerOptions =
  minLevel :: LogLevel
  prettyPrint :: bool
  includeStackTrace :: bool
  defaultMetadata :: LogMetadata
  "output" :: "'s output_fn"
  enrichWithContext :: bool

fun LOG_LEVELS :: "LogLevel \<Rightarrow> nat" where
  "LOG_LEVELS Debug = 0"
| "LOG_LEVELS Info = 1"
| "LOG_LEVELS Warn = 2"
| "LOG_LEVELS Error = 3"

text \<open>
  A logger as a method sees it through \<^verbatim>\<open>this\<close>: \<open>self_ref\<close> is the address of the logger
  object, \<open>options_ref\<close> the address of the object its field \<^verbatim>\<open>options\<close> points to, \<open>options\<close>
  the fields of that object and \<open>childMetadata\<close> the field of that name.  The store the
  objects live in comes after the methods.
\<close>

record 's StruktosLogger =
  self_ref :: nat
  options_ref :: nat
  options :: "'s Required_StruktosLoggerOptions"
  childMetadata :: LogMetadata

text \<open>
  The default output function: JSON text to the console method of the entry's level.  The
  \<^verbatim>\<open>default\<close> branch of its \<^verbatim>\<open>switch\<close> (\<^verbatim>\<open>console.log\<close>) cannot be reached with a level of type
  \<^verbatim>\<open>LogLevel\<close>.
\<close>

definition defaultOutput :: "bool \<Rightarrow> 's output_fn" where
  "defaultOutput pretty entry w =
     (let json = JSON_stringify entry (if pretty then 2 else 0);
          method = (case level entry of
                      Debug \<Rightarrow> console_debug
                    | Info \<Rightarrow> console_info
                    | Warn \<Rightarrow> console_warn
                    | Error \<Rightarrow> console_error)
      in (None, w\<lparr>console := console w @ [(method, json)]\<rparr>))"

text \<open>
  The constructor: what it builds, and the next free address it leaves.  \<open>free\<close> is the
  next free address: \<^verbatim>\<open>new\<close> allocates the logger, the object literal assigned to
  \<^verbatim>\<open>this.options\<close> allocates a new options object.  \<open>||\<close> and \<open>??\<close> put the default where the
  option is left out.
\<close>

definition new_StruktosLogger ::
  "'s StruktosLoggerOptions \<Rightarrow> LogMetadata \<Rightarrow> nat \<Rightarrow> 's StruktosLogger \<times> nat" where
  "new_StruktosLogger opts childMd free =
     (let pretty = (case prettyPrint_opt opts of Some b \<Rightarrow> b | None \<Rightarrow> False)
      in (\<lparr>self_ref = free,
           options_ref = free + 1,
           options = \<lparr>
             minLevel = (case minLevel_opt opts of Some l \<Rightarrow> l | None \<Rightarrow> Info),
             prettyPrint = pretty,
             includeStackTrace = (case includeStackTrace_opt opts of Some b \<Rightarrow> b | None \<Rightarrow> True),
             defaultMetadata = (case defaultMetadata_opt opts of Some m \<Rightarrow> m | None \<Rightarrow> []),
             output = (case output_opt opts of Some f \<Rightarrow> f | None \<Rightarrow> defaultOutput pretty),
             enrichWithContext = (case enrichWithContext_opt opts of Some b \<Rightarrow> b | None \<Rightarrow> True)\<rparr>,
           childMetadata = childMd\<rparr>,
          free + 2))"

text \<open>\<^verbatim>\<open>this.options\<close> passed where a \<^verbatim>\<open>StruktosLoggerOptions\<close> is expected: every option is set.\<close>

definition as_options :: "'s Required_StruktosLoggerOptions \<Rightarrow> 's StruktosLoggerOptions" where
  "as_options r =
     \<lparr>minLevel_opt = Some (minLevel r),
      prettyPrint_opt = Some (prettyPrint r),
      includeStackTrace_opt = Some (includeStackTrace r),
      defaultMetadata_opt = Some (defaultMetadata r),
      output_opt = Some (output r),
      enrichWithContext_opt = Some (enrichWithContext r)\<rparr>"

definition no_options :: "'s StruktosLoggerOptions" where
  "no_options =
     \<lparr>minLevel_opt = None, prettyPrint_opt = None, includeStackTrace_opt = None,
      defaultMetadata_opt = None, output_opt = None, enrichWithContext_opt = None\<rparr>"

definition createLogger ::
  "'s StruktosLoggerOptions option \<Rightarrow> nat \<Rightarrow> 's StruktosLogger \<times> nat" where
  "createLogger opts free =
     new_StruktosLogger (case opts of Some given \<Rightarrow> given | None \<Rightarrow> no_options) [] free"

definition child :: "'s StruktosLogger \<Rightarrow> LogMetadata \<Rightarrow> nat \<Rightarrow> 's StruktosLogger \<times> nat" where
  "child L md free =
     (let mergedMetadata = spread (spread [] (childMetadata L)) md
      in new_StruktosLogger (as_options (options L)) mergedMetadata free)"

definition shouldLog :: "'s StruktosLogger \<Rightarrow> LogLevel \<Rightarrow> bool" where
  "shouldLog L lvl = (LOG_LEVELS lvl \<ge> LOG_LEVELS (minLevel (options L)))"

text \<open>
  \<^verbatim>\<open>extractContextData\<close>: the three reads happen inside one \<^verbatim>\<open>try\<close>, so a throw anywhere gives
  the empty object.
\<close>

definition extractContextData :: "'s world \<Rightarrow> props" where
  "extractContextData w =
     (case ambient w of
        Unavailable x \<Rightarrow> []
      | Absent \<Rightarrow> []
      | Active get \<Rightarrow>
          (case get ''traceId'' of
             Throw x \<Rightarrow> []
           | Return t \<Rightarrow>
               (let contextData = (if truthy t then AList.update ''traceId'' t [] else [])
                in case get ''requestId'' of
                     Throw x \<Rightarrow> []
                   | Return r \<Rightarrow>
                       (let contextData =
                              (if truthy r then AList.update ''requestId'' r contextData
                               else contextData)
                        in case get ''userId'' of
                             Throw x \<Rightarrow> []
                           | Return u \<Rightarrow>
                               (if truthy u then AList.update ''userId'' u contextData
                                else contextData)))))"

text \<open>
  \<^verbatim>\<open>Object.assign(entry, contextData)\<close>: every key of the source is written to the entry.
  The source object holds no other keys than the three context fields.
\<close>

definition assign_key :: "props \<Rightarrow> LogEntry \<Rightarrow> string \<Rightarrow> LogEntry" where
  "assign_key src e k =
     (if k = ''traceId'' then e\<lparr>traceId := Some (get_prop src k)\<rparr>
      else if k = ''requestId'' then e\<lparr>requestId := Some (get_prop src k)\<rparr>
      else if k = ''userId'' then e\<lparr>userId := Some (get_prop src k)\<rparr>
      else e)"

definition Object_assign :: "LogEntry \<Rightarrow> props \<Rightarrow> LogEntry" where
  "Object_assign entry src = foldl (assign_key src) entry (Object_keys src)"

text \<open>The local constant \<^verbatim>\<open>allMetadata\<close> of \<^verbatim>\<open>buildLogEntry\<close>.\<close>

definition allMetadata :: "'s StruktosLogger \<Rightarrow> LogMetadata option \<Rightarrow> props" where
  "allMetadata L md =
     spread_opt (spread (spread [] (defaultMetadata (options L))) (childMetadata L)) md"

definition buildLogEntry ::
  "'s StruktosLogger \<Rightarrow> LogLevel \<Rightarrow> string \<Rightarrow> LogMetadata option \<Rightarrow> 's world \<Rightarrow> LogEntry" where
  "buildLogEntry L lvl msg md w =
     (let entry = \<lparr>level = lvl, message = msg, timestamp = now w, metadata = None,
                   traceId = None, requestId = None, userId = None, error = None\<rparr>;
          entry = (if enrichWithContext (options L)
                   then Object_assign entry (extractContextData w) else entry);
          allMd = allMetadata L md
      in if length (Object_keys allMd) > 0
         then (let err = get_prop allMd ''error'';
                   restMetadata = AList.delete ''error'' allMd;
                   entry = (if length (Object_keys restMetadata) > 0
                            then entry\<lparr>metadata := Some restMetadata\<rparr> else entry)
               in if truthy err then entry\<lparr>error := Some err\<rparr> else entry)
         else entry)"

text \<open>
  What a logging call did: the records the output function was invoked with, in order, the
  value that reached the caller as an exception (\<open>None\<close> for a normal return), and the
  world afterwards.
\<close>

record 's outcome =
  invoked :: "LogEntry list"
  thrown :: "exn option"
  after :: "'s world"

definition log ::
  "'s StruktosLogger \<Rightarrow> LogLevel \<Rightarrow> string \<Rightarrow> LogMetadata option \<Rightarrow> 's world \<Rightarrow> 's outcome" where
  "log L lvl msg md w =
     (if \<not> shouldLog L lvl then \<lparr>invoked = [], thrown = None, after = w\<rparr>
      else (let entry = buildLogEntry L lvl msg md w;
                res = output (options L) entry w
            in \<lparr>invoked = [entry], thrown = fst res, after = snd res\<rparr>))"

text \<open>
  \<^verbatim>\<open>serializeError\<close>.  The \<^verbatim>\<open>Error\<close> branch builds the object literal and assigns to it
  (\<open>set_prop\<close>); the last branch converts with \<^verbatim>\<open>String(error)\<close>, and what that throws leaves
  the function.
\<close>

definition serializeError :: "'s StruktosLogger \<Rightarrow> jsval \<Rightarrow> jsval completion" where
  "serializeError L err =
     (if \<not> truthy err then Return JUndefined
      else if instanceof_Error err then
        (let serialized = [(''name'', err_name err), (''message'', err_message err)];
             serialized = (if includeStackTrace (options L) \<and> truthy (err_stack err)
                           then set_prop serialized ''stack'' (err_stack err)
                           else serialized)
         in Return (JObj (foldl (\<lambda>acc key.
                           if key \<noteq> ''name'' \<and> key \<noteq> ''message'' \<and> key \<noteq> ''stack''
                           then set_prop acc key (get_prop (err_own err) key)
                           else acc)
                    serialized (Object_keys (err_own err)))))
      else (case js_String err of
              Throw x \<Rightarrow> Throw x
            | Return text \<Rightarrow> Return (JObj [(''message'', JStr text)])))"

definition debug ::
  "'s StruktosLogger \<Rightarrow> string \<Rightarrow> LogMetadata option \<Rightarrow> 's world \<Rightarrow> 's outcome" where
  "debug L msg md w = log L Debug msg md w"

definition info ::
  "'s StruktosLogger \<Rightarrow> string \<Rightarrow> LogMetadata option \<Rightarrow> 's world \<Rightarrow> 's outcome" where
  "info L msg md w = log L Info msg md w"

definition warn ::
  "'s StruktosLogger \<Rightarrow> string \<Rightarrow> LogMetadata option \<Rightarrow> 's world \<Rightarrow> 's outcome" where
  "warn L msg md w = log L Warn msg md w"

text \<open>
  The method \<^verbatim>\<open>error(message, error, metadata)\<close>.  What \<^verbatim>\<open>serializeError\<close> throws leaves the
  method before \<^verbatim>\<open>log\<close> is called.  \<^verbatim>\<open>errorData && { error: errorData }\<close> is the one-key object
  when \<open>errorData\<close> is truthy and \<^verbatim>\<open>undefined\<close> otherwise, which spreads to nothing.
\<close>

definition error_method ::
  "'s StruktosLogger \<Rightarrow> string \<Rightarrow> jsval \<Rightarrow> LogMetadata option \<Rightarrow> 's world \<Rightarrow> 's outcome" where
  "error_method L msg err md w =
     (case serializeError L err of
        Throw x \<Rightarrow> \<lparr>invoked = [], thrown = Some x, after = w\<rparr>
      | Return errorData \<Rightarrow>
          (let mergedMetadata =
                 spread_opt (spread_opt [] md)
                   (if truthy errorData then Some [(''error'', errorData)] else None)
           in log L Error msg (Some mergedMetadata) w))"

section \<open>Logger objects in the store\<close>














section \<open>Example loggers and worlds\<close>

text \<open>A world outside any request scope, with an empty console, at clock reading 1000.\<close>

definition quiet_world :: "unit world" where
  "quiet_world = \<lparr>now = 1000, ambient = Absent, console = [], sink = ()\<rparr>"

text \<open>\<^verbatim>\<open>createLogger({ minLevel: 'error' })\<close>\<close>

definition errors_only :: "unit StruktosLogger" where
  "errors_only = fst (createLogger (Some (no_options\<lparr>minLevel_opt := Some Error\<rparr>)) 0)"

text \<open>
  \<^verbatim>\<open>createLogger({ defaultMetadata: { a: 1, b: 1 } })\<close> and its child
  \<^verbatim>\<open>child({ b: 2, c: 2 })\<close>.
\<close>

definition base_logger :: "unit StruktosLogger" where
  "base_logger =
     fst (createLogger
       (Some (no_options\<lparr>defaultMetadata_opt := Some [(''a'', JNum (num 1)), (''b'', JNum (num 1))]\<rparr>)) 0)"

definition scoped_logger :: "unit StruktosLogger" where
  "scoped_logger = fst (child base_logger [(''b'', JNum (num 2)), (''c'', JNum (num 2))] 2)"

text \<open>\<^verbatim>\<open>createLogger()\<close>: every option at its default.\<close>

definition plain_logger :: "unit StruktosLogger" where
  "plain_logger = fst (createLogger None 0)"

text \<open>\<^verbatim>\<open>createLogger({ includeStackTrace: false })\<close>\<close>

definition traceless_logger :: "unit StruktosLogger" where
  "traceless_logger =
     fst (createLogger (Some (no_options\<lparr>includeStackTrace_opt := Some False\<rparr>)) 0)"

text \<open>
  An \<^verbatim>\<open>Error\<close> with two fields of its own, as in
  \<^verbatim>\<open>const e = new Error('Invalid user input'); e.code = 'VALIDATION_ERROR'; e.field = 'email'\<close>.
\<close>

definition validation_error :: jsval where
  "validation_error =
     JError (JStr ''Error'') (JStr ''Invalid user input'')
       (JStr ''Error: Invalid user input at validate'')
       [(''code'', JStr ''VALIDATION_ERROR''), (''field'', JStr ''email'')]"




text \<open>An output function that takes five milliseconds, and a logger that writes to it.\<close>

definition slow_output :: "unit output_fn" where
  "slow_output entry w = (None, w\<lparr>now := now w + 5\<rparr>)"

definition slow_logger :: "unit StruktosLogger" where
  "slow_logger = fst (createLogger (Some (no_options\<lparr>output_opt := Some slow_output\<rparr>)) 0)"

text \<open>An output function that throws, and a logger that writes to it.\<close>

definition failing_output :: "unit output_fn" where
  "failing_output entry w = (Some (Thrown (JStr ''sink unreachable'')), w)"

definition fragile_logger :: "unit StruktosLogger" where
  "fragile_logger =
     fst (createLogger (Some (no_options\<lparr>minLevel_opt := Some Debug,
                                          output_opt := Some failing_output\<rparr>)) 0)"

text \<open>
  \<^verbatim>\<open>{ toString: 1 }\<close>, a plain object that has no conversion to a string, and an \<^verbatim>\<open>Error\<close> whose
  \<^verbatim>\<open>stack\<close> is the empty string.
\<close>

definition unprintable :: jsval where
  "unprintable = JObj [(''toString'', JNum (num 1))]"

definition stackless_error :: jsval where
  "stackless_error = JError (JStr ''Error'') (JStr ''boom'') (JStr []) []"



section \<open>Auxiliary facts\<close>

subsection \<open>Spread and lookup\<close>

lemma map_of_foldl_update:
  "map_of (foldl (\<lambda>acc k. AList.update k (f k) acc) t ks) =
     (\<lambda>x. if x \<in> set ks then Some (f x) else map_of t x)"
  by (induction ks arbitrary: t) (auto simp: update_conv' fun_eq_iff)

lemma map_of_spread: "map_of (spread t s) = map_of t ++ map_of s"
proof (rule ext)
  fix x
  show "map_of (spread t s) x = (map_of t ++ map_of s) x"
  proof (cases "map_of s x")
    case None
    then have "x \<notin> fst ` set s" by (simp add: map_of_eq_None_iff)
    with None show ?thesis
      by (simp add: spread_def Object_keys_def get_prop_def map_of_foldl_update map_add_def)
  next
    case (Some v)
    then have "x \<in> fst ` set s" using map_of_eq_None_iff [of s x] by simp
    with Some show ?thesis
      by (simp add: spread_def Object_keys_def get_prop_def map_of_foldl_update map_add_def)
  qed
qed

lemma map_of_spread_opt:
  "map_of (spread_opt t md) = map_of t ++ (case md of None \<Rightarrow> Map.empty | Some m \<Rightarrow> map_of m)"
  by (cases md) (simp_all add: map_of_spread)

lemma map_of_allMetadata:
  "map_of (allMetadata L md) =
     map_of (defaultMetadata (options L)) ++ map_of (childMetadata L)
       ++ (case md of None \<Rightarrow> Map.empty | Some m \<Rightarrow> map_of m)"
  by (simp add: allMetadata_def map_of_spread_opt map_of_spread)

subsection \<open>Context enrichment\<close>

lemma assign_keys_frame:
  "level (foldl (assign_key src) e ks) = level e
   \<and> message (foldl (assign_key src) e ks) = message e
   \<and> timestamp (foldl (assign_key src) e ks) = timestamp e
   \<and> metadata (foldl (assign_key src) e ks) = metadata e
   \<and> error (foldl (assign_key src) e ks) = error e"
  by (induction ks arbitrary: e) (simp_all add: assign_key_def)

lemma Object_assign_frame:
  "level (Object_assign e src) = level e"
  "message (Object_assign e src) = message e"
  "timestamp (Object_assign e src) = timestamp e"
  "metadata (Object_assign e src) = metadata e"
  "error (Object_assign e src) = error e"
  by (simp_all add: Object_assign_def assign_keys_frame)





subsection \<open>The fields of a built entry\<close>

lemma buildLogEntry_level: "level (buildLogEntry L lvl msg md w) = lvl"
  by (simp add: buildLogEntry_def Let_def Object_assign_frame)

lemma buildLogEntry_timestamp: "timestamp (buildLogEntry L lvl msg md w) = now w"
  by (simp add: buildLogEntry_def Let_def Object_assign_frame)

lemma get_prop_Nil: "get_prop [] k = JUndefined"
  by (simp add: get_prop_def)

lemma buildLogEntry_error:
  "error (buildLogEntry L lvl msg md w) =
     (if truthy (get_prop (allMetadata L md) ''error'')
      then Some (get_prop (allMetadata L md) ''error'') else None)"
  by (cases "allMetadata L md")
     (simp_all add: buildLogEntry_def Let_def Object_assign_frame Object_keys_def get_prop_Nil)

lemma buildLogEntry_metadata:
  "metadata (buildLogEntry L lvl msg md w) =
     (if AList.delete ''error'' (allMetadata L md) = [] then None
      else Some (AList.delete ''error'' (allMetadata L md)))"
  by (cases "allMetadata L md")
     (simp_all add: buildLogEntry_def Let_def Object_assign_frame Object_keys_def AList.delete_eq)


lemma log_pass:
  "shouldLog L lvl \<Longrightarrow>
     log L lvl msg md w =
       \<lparr>invoked = [buildLogEntry L lvl msg md w],
        thrown = fst (output (options L) (buildLogEntry L lvl msg md w) w),
        after = snd (output (options L) (buildLogEntry L lvl msg md w) w)\<rparr>"
  by (simp add: log_def Let_def)

lemma log_filtered:
  "\<not> shouldLog L lvl \<Longrightarrow> log L lvl msg md w = \<lparr>invoked = [], thrown = None, after = w\<rparr>"
  by (simp add: log_def)

lemma shouldLog_Error: "shouldLog L Error"
  by (cases "minLevel (options L)") (simp_all add: shouldLog_def)

subsection \<open>Error serialization\<close>

lemma int_of_safe_num:
  "- 9007199254740991 \<le> n \<Longrightarrow> n \<le> 9007199254740991 \<Longrightarrow> int_of_safe (num n) = n"
  by (simp add: num.rep_eq)

lemma int_of_safe_eq_0: "(int_of_safe n = 0) = (n = num 0)"
  by transfer simp

lemma map_of_foldl_set_prop_if:
  "map_of (foldl (\<lambda>acc k. if P k then set_prop acc k (f k) else acc) t ks) =
     (\<lambda>x. if x \<in> set ks \<and> P x \<and> x \<noteq> ''__proto__'' then Some (f x) else map_of t x)"
  by (induction ks arbitrary: t) (auto simp: set_prop_def update_conv' fun_eq_iff)

lemma distinct_foldl_set_prop_if:
  "distinct (map fst t) \<Longrightarrow>
   distinct (map fst (foldl (\<lambda>acc k. if P k then set_prop acc k (f k) else acc) t ks))"
  by (induction ks arbitrary: t) (simp_all add: set_prop_def distinct_update)

lemma get_prop_key: "k \<in> fst ` set ps \<Longrightarrow> Some (get_prop ps k) = map_of ps k"
  using map_of_eq_None_iff [of ps k] by (auto simp: get_prop_def split: option.splits)



lemma serializeError_falsy: "\<not> truthy err \<Longrightarrow> serializeError L err = Return JUndefined"
  by (simp add: serializeError_def)

lemma serializeError_other:
  "truthy err \<Longrightarrow> \<not> instanceof_Error err \<Longrightarrow>
     serializeError L err =
       (case js_String err of
          Throw x \<Rightarrow> Throw x
        | Return text \<Rightarrow> Return (JObj [(''message'', JStr text)]))"
  by (simp add: serializeError_def)


lemma serializeError_Error:
  "\<exists>d. serializeError L (JError n m s own) = Return (JObj d)
       \<and> distinct (map fst d)
       \<and> map_of d ''name'' = Some n
       \<and> map_of d ''message'' = Some m
       \<and> map_of d ''stack'' = (if includeStackTrace (options L) \<and> truthy s then Some s else None)
       \<and> (\<forall>k. k \<noteq> ''name'' \<and> k \<noteq> ''message'' \<and> k \<noteq> ''stack'' \<and> k \<noteq> ''__proto__''
              \<longrightarrow> map_of d k = map_of own k)"
proof -
  let ?init = "if includeStackTrace (options L) \<and> truthy s
               then set_prop [(''name'', n), (''message'', m)] ''stack'' s
               else [(''name'', n), (''message'', m)]"
  let ?d = "foldl (\<lambda>acc key.
                     if key \<noteq> ''name'' \<and> key \<noteq> ''message'' \<and> key \<noteq> ''stack''
                     then set_prop acc key (get_prop own key) else acc)
              ?init (Object_keys own)"
  have ser: "serializeError L (JError n m s own) = Return (JObj ?d)"
    by (simp add: serializeError_def Let_def cong: if_cong)
  have dist: "distinct (map fst ?d)"
    by (rule distinct_foldl_set_prop_if) (simp add: set_prop_def)
  have look: "map_of ?d k =
        (if k \<in> fst ` set own \<and> (k \<noteq> ''name'' \<and> k \<noteq> ''message'' \<and> k \<noteq> ''stack'')
              \<and> k \<noteq> ''__proto__''
         then Some (get_prop own k) else map_of ?init k)" for k
    by (simp only: map_of_foldl_set_prop_if Object_keys_def set_map)
  have rest: "map_of ?d k = map_of own k"
    if "k \<noteq> ''name'' \<and> k \<noteq> ''message'' \<and> k \<noteq> ''stack'' \<and> k \<noteq> ''__proto__''" for k
  proof (cases "k \<in> fst ` set own")
    case True
    with that show ?thesis by (simp only: look get_prop_key if_True simp_thms)
  next
    case False
    then have "map_of own k = None" by (simp add: map_of_eq_None_iff)
    with False that show ?thesis by (simp add: look set_prop_def)
  qed
  have fixed: "map_of ?d ''name'' = Some n \<and> map_of ?d ''message'' = Some m
    \<and> map_of ?d ''stack'' = (if includeStackTrace (options L) \<and> truthy s then Some s else None)"
    by (simp add: look set_prop_def)
  from rest have rest_all:
    "\<forall>k. k \<noteq> ''name'' \<and> k \<noteq> ''message'' \<and> k \<noteq> ''stack'' \<and> k \<noteq> ''__proto__''
          \<longrightarrow> map_of ?d k = map_of own k"
    by simp
  show ?thesis
    by (rule exI [of _ ?d]) (intro conjI ser dist fixed [THEN conjunct1]
        fixed [THEN conjunct2, THEN conjunct1] fixed [THEN conjunct2, THEN conjunct2] rest_all)
qed

subsection \<open>The error method\<close>

lemma error_method_Throw:
  "serializeError L err = Throw x \<Longrightarrow>
     error_method L msg err md w = \<lparr>invoked = [], thrown = Some x, after = w\<rparr>"
  by (simp add: error_method_def)

lemma error_method_Return:
  "serializeError L err = Return d \<Longrightarrow>
     error_method L msg err md w =
       log L Error msg
         (Some (spread_opt (spread_opt [] md)
            (if truthy d then Some [(''error'', d)] else None))) w"
  by (simp add: error_method_def Let_def)

lemma get_prop_allMetadata_error_truthy:
  "get_prop (allMetadata L (Some (spread t [(''error'', d)]))) ''error'' = d"
  by (simp add: get_prop_def map_of_allMetadata map_of_spread)

lemma get_prop_allMetadata_respread:
  "get_prop (allMetadata L (Some (spread_opt [] md))) k = get_prop (allMetadata L md) k"
  by (cases md) (simp_all add: get_prop_def map_of_allMetadata map_of_spread)

lemma error_method_invoked:
  "serializeError L err = Return d \<Longrightarrow>
     invoked (error_method L msg err md w) =
       [buildLogEntry L Error msg
         (Some (spread_opt (spread_opt [] md)
            (if truthy d then Some [(''error'', d)] else None))) w]"
  by (simp add: error_method_Return log_pass shouldLog_Error)

lemma error_method_error_truthy:
  "serializeError L err = Return d \<Longrightarrow> truthy d \<Longrightarrow>
     map error (invoked (error_method L msg err md w)) = [Some d]"
  by (simp add: error_method_invoked buildLogEntry_error get_prop_allMetadata_error_truthy)

lemma error_method_error_falsy:
  "\<not> truthy err \<Longrightarrow>
     map error (invoked (error_method L msg err md w)) =
       [if truthy (get_prop (allMetadata L md) ''error'')
        then Some (get_prop (allMetadata L md) ''error'') else None]"
  by (simp add: error_method_invoked [OF serializeError_falsy] buildLogEntry_error
        get_prop_allMetadata_respread)

subsection \<open>Metadata of a record\<close>

lemma buildLogEntry_metadata_lookup:
  "k \<noteq> ''error'' \<Longrightarrow>
     Option.bind (metadata (buildLogEntry L lvl msg md w)) (\<lambda>m. map_of m k)
       = map_of (allMetadata L md) k"
proof -
  assume k: "k \<noteq> ''error''"
  have same: "map_of (AList.delete ''error'' (allMetadata L md)) k = map_of (allMetadata L md) k"
    using k by simp
  show ?thesis
  proof (cases "AList.delete ''error'' (allMetadata L md) = []")
    case True
    with same have "map_of (allMetadata L md) k = None" by simp
    with True show ?thesis by (simp add: buildLogEntry_metadata)
  next
    case False
    with same show ?thesis by (simp add: buildLogEntry_metadata)
  qed
qed

lemma map_of_error_merged:
  "k \<noteq> ''error'' \<Longrightarrow>
     map_of (spread_opt (spread_opt [] md) (if c then Some [(''error'', d)] else None)) k
       = (case md of None \<Rightarrow> None | Some m \<Rightarrow> map_of m k)"
  by (cases md) (simp_all add: map_of_spread map_add_def)

lemma scoped_logger_fields:
  "defaultMetadata (options scoped_logger) = [(''a'', JNum (num 1)), (''b'', JNum (num 1))]"
  "childMetadata scoped_logger = [(''b'', JNum (num 2)), (''c'', JNum (num 2))]"
  "minLevel (options scoped_logger) = Info"
  "enrichWithContext (options scoped_logger) = True"
  by (simp_all add: scoped_logger_def base_logger_def createLogger_def new_StruktosLogger_def
        no_options_def child_def as_options_def spread_def Object_keys_def get_prop_def)

lemma scoped_logger_record:
  "map metadata (invoked (info scoped_logger ''m'' (Some [(''c'', JNum (num 3)), (''d'', JNum (num 3))]) quiet_world))
     = [Some [(''a'', JNum (num 1)), (''b'', JNum (num 2)), (''c'', JNum (num 3)), (''d'', JNum (num 3))]]"
  by (simp add: info_def log_pass shouldLog_def scoped_logger_fields buildLogEntry_metadata
        allMetadata_def spread_def Object_keys_def get_prop_def AList.delete_eq)

subsection \<open>The split of the reserved key\<close>

lemma delete_error_empty:
  "(AList.delete ''error'' al = []) = (set (Object_keys al) \<subseteq> {''error''})"
  by (auto simp: AList.delete_eq Object_keys_def filter_empty_conv)

lemma buildLogEntry_metadata_Some:
  "metadata (buildLogEntry L lvl msg md w) = Some m \<Longrightarrow>
     m = AList.delete ''error'' (allMetadata L md) \<and> m \<noteq> []"
  by (simp add: buildLogEntry_metadata split: if_splits)

lemma plain_logger_fields:
  "defaultMetadata (options plain_logger) = []"
  "childMetadata plain_logger = []"
  "minLevel (options plain_logger) = Info"
  "includeStackTrace (options plain_logger) = True"
  "enrichWithContext (options plain_logger) = True"
  by (simp_all add: plain_logger_def createLogger_def new_StruktosLogger_def no_options_def)

lemma plain_logger_allMetadata: "allMetadata plain_logger (Some m) = spread [] m"
  by (simp add: allMetadata_def plain_logger_fields spread_def Object_keys_def)

subsection \<open>Example evaluations of the error method\<close>

lemma traceless_logger_fields:
  "defaultMetadata (options traceless_logger) = []"
  "childMetadata traceless_logger = []"
  "includeStackTrace (options traceless_logger) = False"
  by (simp_all add: traceless_logger_def createLogger_def new_StruktosLogger_def no_options_def)

lemma serializeError_validation_error:
  "serializeError plain_logger validation_error =
     Return (JObj [(''name'', JStr ''Error''), (''message'', JStr ''Invalid user input''),
           (''stack'', JStr ''Error: Invalid user input at validate''),
           (''code'', JStr ''VALIDATION_ERROR''), (''field'', JStr ''email'')])"
  "serializeError traceless_logger validation_error =
     Return (JObj [(''name'', JStr ''Error''), (''message'', JStr ''Invalid user input''),
           (''code'', JStr ''VALIDATION_ERROR''), (''field'', JStr ''email'')])"
  by (simp_all add: serializeError_def validation_error_def plain_logger_fields
        traceless_logger_fields Object_keys_def get_prop_def set_prop_def)

lemma serializeError_stackless_error:
  "serializeError plain_logger stackless_error =
     Return (JObj [(''name'', JStr ''Error''), (''message'', JStr ''boom'')])"
  by (simp add: serializeError_def stackless_error_def plain_logger_fields Object_keys_def)

lemma serializeError_unprintable: "serializeError L unprintable = Throw TypeError"
  by (simp add: serializeError_def unprintable_def Object_keys_def)

lemma get_prop_allMetadata_Nil:
  "defaultMetadata (options L) = [] \<Longrightarrow> childMetadata L = [] \<Longrightarrow>
     get_prop (allMetadata L None) k = JUndefined"
  by (simp add: get_prop_def map_of_allMetadata)

subsection \<open>Context fields of a built entry\<close>



subsection \<open>Construction\<close>




lemma slow_logger_fields:
  "minLevel (options slow_logger) = Info"
  "output (options slow_logger) = slow_output"
  by (simp_all add: slow_logger_def createLogger_def new_StruktosLogger_def no_options_def)

lemma fragile_logger_fields:
  "minLevel (options fragile_logger) = Debug"
  "output (options fragile_logger) = failing_output"
  by (simp_all add: fragile_logger_def createLogger_def new_StruktosLogger_def no_options_def)

subsection \<open>The store\<close>

















section \<open>Level filtering\<close>

text \<open>
  The filter of the dispatch.  The ranks are \<open>debug = 0 < info = 1 < warn = 2 < error = 3\<close>.
  For every configured \<open>minLevel\<close> and every call level, \<open>log\<close> applies the configured
  output function exactly once, to the record \<open>buildLogEntry\<close> constructs, iff the rank of
  the call level is at least the rank of \<open>minLevel\<close>: the call then throws what the output
  function throws and leaves the world the output function leaves.  Below that rank the
  call returns at once: the output function is not applied, nothing is thrown and the
  world is left as it was.  \<open>debug\<close>, \<open>info\<close> and \<open>warn\<close> are \<open>log\<close> at their level, and so is
  \<open>error\<close>, with the serialized value merged in, whenever \<^verbatim>\<open>serializeError\<close> returns.
\<close>

theorem level_filtering:
  "(LOG_LEVELS Debug = 0 \<and> LOG_LEVELS Info = 1 \<and> LOG_LEVELS Warn = 2 \<and> LOG_LEVELS Error = 3)
   \<and> ((length (invoked (log L lvl msg md w)) = 1)
        = (LOG_LEVELS lvl \<ge> LOG_LEVELS (minLevel (options L))))
   \<and> (LOG_LEVELS lvl \<ge> LOG_LEVELS (minLevel (options L))
        \<longrightarrow> log L lvl msg md w =
              \<lparr>invoked = [buildLogEntry L lvl msg md w],
               thrown = fst (output (options L) (buildLogEntry L lvl msg md w) w),
               after = snd (output (options L) (buildLogEntry L lvl msg md w) w)\<rparr>)
   \<and> (LOG_LEVELS lvl < LOG_LEVELS (minLevel (options L))
        \<longrightarrow> log L lvl msg md w = \<lparr>invoked = [], thrown = None, after = w\<rparr>)
   \<and> debug L msg md w = log L Debug msg md w
   \<and> info L msg md w = log L Info msg md w
   \<and> warn L msg md w = log L Warn msg md w
   \<and> (\<forall>d. serializeError L err = Return d \<longrightarrow>
         error_method L msg err md w =
           \<lparr>invoked = [buildLogEntry L Error msg
                (Some (spread_opt (spread_opt [] md)
                   (if truthy d then Some [(''error'', d)] else None))) w],
            thrown = fst (output (options L) (buildLogEntry L Error msg
                (Some (spread_opt (spread_opt [] md)
                   (if truthy d then Some [(''error'', d)] else None))) w) w),
            after = snd (output (options L) (buildLogEntry L Error msg
                (Some (spread_opt (spread_opt [] md)
                   (if truthy d then Some [(''error'', d)] else None))) w) w)\<rparr>)
   \<and> ((length (invoked (debug L msg md w)) = 1)
        = (LOG_LEVELS Debug \<ge> LOG_LEVELS (minLevel (options L))))
   \<and> ((length (invoked (info L msg md w)) = 1)
        = (LOG_LEVELS Info \<ge> LOG_LEVELS (minLevel (options L))))
   \<and> ((length (invoked (warn L msg md w)) = 1)
        = (LOG_LEVELS Warn \<ge> LOG_LEVELS (minLevel (options L))))"
proof -
  have pass: "log L l msg m w =
              \<lparr>invoked = [buildLogEntry L l msg m w],
               thrown = fst (output (options L) (buildLogEntry L l msg m w) w),
               after = snd (output (options L) (buildLogEntry L l msg m w) w)\<rparr>"
    if "LOG_LEVELS l \<ge> LOG_LEVELS (minLevel (options L))" for l m
    using that by (simp add: log_pass shouldLog_def)
  have drop: "log L l msg m w = \<lparr>invoked = [], thrown = None, after = w\<rparr>"
    if "LOG_LEVELS l < LOG_LEVELS (minLevel (options L))" for l m
    using that by (simp add: log_filtered shouldLog_def)
  have count: "(length (invoked (log L l msg m w)) = 1)
                 = (LOG_LEVELS l \<ge> LOG_LEVELS (minLevel (options L)))" for l m
  proof (cases "LOG_LEVELS l \<ge> LOG_LEVELS (minLevel (options L))")
    case True
    then show ?thesis by (simp add: pass)
  next
    case False
    then show ?thesis by (simp add: drop)
  qed
  have ranks: "LOG_LEVELS Debug = 0 \<and> LOG_LEVELS Info = 1 \<and> LOG_LEVELS Warn = 2 \<and> LOG_LEVELS Error = 3"
    by simp
  have by_error: "\<forall>d. serializeError L err = Return d \<longrightarrow>
         error_method L msg err md w =
           \<lparr>invoked = [buildLogEntry L Error msg
                (Some (spread_opt (spread_opt [] md)
                   (if truthy d then Some [(''error'', d)] else None))) w],
            thrown = fst (output (options L) (buildLogEntry L Error msg
                (Some (spread_opt (spread_opt [] md)
                   (if truthy d then Some [(''error'', d)] else None))) w) w),
            after = snd (output (options L) (buildLogEntry L Error msg
                (Some (spread_opt (spread_opt [] md)
                   (if truthy d then Some [(''error'', d)] else None))) w) w)\<rparr>"
    by (simp add: error_method_Return log_pass shouldLog_Error)
  have once: "LOG_LEVELS lvl \<ge> LOG_LEVELS (minLevel (options L))
        \<longrightarrow> log L lvl msg md w =
              \<lparr>invoked = [buildLogEntry L lvl msg md w],
               thrown = fst (output (options L) (buildLogEntry L lvl msg md w) w),
               after = snd (output (options L) (buildLogEntry L lvl msg md w) w)\<rparr>"
    using pass [of lvl md] by simp
  have none: "LOG_LEVELS lvl < LOG_LEVELS (minLevel (options L))
        \<longrightarrow> log L lvl msg md w = \<lparr>invoked = [], thrown = None, after = w\<rparr>"
    using drop [of lvl md] by simp
  show ?thesis
    unfolding debug_def info_def warn_def
    by (intro conjI ranks [THEN conjunct1] ranks [THEN conjunct2, THEN conjunct1]
        ranks [THEN conjunct2, THEN conjunct2, THEN conjunct1]
        ranks [THEN conjunct2, THEN conjunct2, THEN conjunct2]
        count once none by_error refl)
qed

theorem level_filtering_witness:
  "LOG_LEVELS Error \<ge> LOG_LEVELS (minLevel (options errors_only))
   \<and> invoked (log errors_only Error ''down'' None quiet_world)
       = [buildLogEntry errors_only Error ''down'' None quiet_world]
   \<and> LOG_LEVELS Debug < LOG_LEVELS (minLevel (options errors_only))
   \<and> log errors_only Debug ''up'' None quiet_world
       = \<lparr>invoked = [], thrown = None, after = quiet_world\<rparr>
   \<and> debug errors_only ''up'' None quiet_world
       = \<lparr>invoked = [], thrown = None, after = quiet_world\<rparr>
   \<and> serializeError errors_only (JStr ''boom'') = Return (JObj [(''message'', JStr ''boom'')])
   \<and> length (invoked (error_method errors_only ''down'' (JStr ''boom'') None quiet_world)) = 1"
proof -
  have min: "minLevel (options errors_only) = Error"
    by (simp add: errors_only_def createLogger_def new_StruktosLogger_def no_options_def)
  have boom: "serializeError errors_only (JStr ''boom'')
      = Return (JObj [(''message'', JStr ''boom'')])"
    by (simp add: serializeError_other)
  show ?thesis
    using level_filtering [where L = errors_only and lvl = Error and msg = "''down''"
            and md = None and w = quiet_world and err = "JStr ''boom''"]
          level_filtering [where L = errors_only and lvl = Debug and msg = "''up''"
            and md = None and w = quiet_world and err = JUndefined]
    by (simp add: min boom)
qed

text \<open>
  Claim C1.  For every configured \<open>minLevel\<close> and every call level, a logging call
  (\<open>debug\<close>, \<open>info\<close>, \<open>warn\<close>, \<open>error\<close>) invokes the configured output function exactly once with a
  constructed record iff the rank of the call level is at least the rank of \<open>minLevel\<close>.
  The code breaks this for \<open>error\<close>, whose rank passes every \<open>minLevel\<close>:
  \<^verbatim>\<open>error('m', { toString: 1 })\<close> on the default logger.  The value is truthy and not an
  \<^verbatim>\<open>Error\<close>, \<^verbatim>\<open>String(error)\<close> throws a \<^verbatim>\<open>TypeError\<close> inside \<^verbatim>\<open>serializeError\<close>, and the call ends
  there: \<open>log\<close> is never reached and the output function is invoked zero times, where a
  \<open>warn\<close> on the same logger reaches it once.
\<close>

theorem error_call_skips_dispatch:
  "LOG_LEVELS (minLevel (options plain_logger)) \<le> LOG_LEVELS Error
   \<and> truthy unprintable
   \<and> js_String unprintable = Throw TypeError
   \<and> error_method plain_logger ''m'' unprintable None quiet_world
       = \<lparr>invoked = [], thrown = Some TypeError, after = quiet_world\<rparr>
   \<and> length (invoked (warn plain_logger ''m'' None quiet_world)) = 1"
  by (simp add: error_method_Throw [OF serializeError_unprintable] plain_logger_fields
        warn_def log_pass shouldLog_def)
     (simp add: unprintable_def Object_keys_def)

section \<open>Metadata merge\<close>

text \<open>
  Claim C2.  For every record, the merged metadata map is \<open>defaultMetadata\<close> overridden by
  the accumulated child metadata overridden by the per-call metadata, a later source winning
  on a key collision: this is the map \<open>allMetadata\<close> holds, and every key other than the
  reserved \<open>error\<close> is found in the \<open>metadata\<close> field of a record passed to the output
  function, by \<open>log\<close> at any level and by the \<open>error\<close> method, with exactly that value.
  With \<open>defaultMetadata = {a:1, b:1}\<close>, a child created with \<open>{b:2, c:2}\<close> and a call with
  \<open>{c:3, d:3}\<close> the \<open>metadata\<close> field is \<open>{a:1, b:2, c:3, d:3}\<close>.
\<close>

theorem metadata_merge_precedence:
  "map_of (allMetadata L md) =
       map_of (defaultMetadata (options L)) ++ map_of (childMetadata L)
         ++ (case md of None \<Rightarrow> Map.empty | Some m \<Rightarrow> map_of m)
   \<and> (\<forall>e \<in> set (invoked (log L lvl msg md w)). \<forall>k. k \<noteq> ''error'' \<longrightarrow>
         Option.bind (metadata e) (\<lambda>m. map_of m k) =
           (map_of (defaultMetadata (options L)) ++ map_of (childMetadata L)
              ++ (case md of None \<Rightarrow> Map.empty | Some m \<Rightarrow> map_of m)) k)
   \<and> (\<forall>e \<in> set (invoked (error_method L msg err md w)). \<forall>k. k \<noteq> ''error'' \<longrightarrow>
         Option.bind (metadata e) (\<lambda>m. map_of m k) =
           (map_of (defaultMetadata (options L)) ++ map_of (childMetadata L)
              ++ (case md of None \<Rightarrow> Map.empty | Some m \<Rightarrow> map_of m)) k)"
proof (intro conjI ballI allI impI)
  show "map_of (allMetadata L md) =
       map_of (defaultMetadata (options L)) ++ map_of (childMetadata L)
         ++ (case md of None \<Rightarrow> Map.empty | Some m \<Rightarrow> map_of m)"
    by (rule map_of_allMetadata)
next
  fix e k
  assume e: "e \<in> set (invoked (log L lvl msg md w))" and k: "k \<noteq> ''error''"
  from e have "e = buildLogEntry L lvl msg md w"
    by (cases "shouldLog L lvl") (simp_all add: log_pass log_filtered)
  with k show "Option.bind (metadata e) (\<lambda>m. map_of m k) =
           (map_of (defaultMetadata (options L)) ++ map_of (childMetadata L)
              ++ (case md of None \<Rightarrow> Map.empty | Some m \<Rightarrow> map_of m)) k"
    by (simp add: buildLogEntry_metadata_lookup map_of_allMetadata)
next
  fix e k
  assume e: "e \<in> set (invoked (error_method L msg err md w))" and k: "k \<noteq> ''error''"
  show "Option.bind (metadata e) (\<lambda>m. map_of m k) =
           (map_of (defaultMetadata (options L)) ++ map_of (childMetadata L)
              ++ (case md of None \<Rightarrow> Map.empty | Some m \<Rightarrow> map_of m)) k"
  proof (cases "serializeError L err")
    case (Throw x)
    with e show ?thesis by (simp add: error_method_Throw)
  next
    case (Return d)
    let ?merged = "spread_opt (spread_opt [] md) (if truthy d then Some [(''error'', d)] else None)"
    from e Return have "e = buildLogEntry L Error msg (Some ?merged) w"
      by (simp add: error_method_invoked)
    with k have "Option.bind (metadata e) (\<lambda>m. map_of m k)
        = map_of (allMetadata L (Some ?merged)) k"
      by (simp add: buildLogEntry_metadata_lookup)
    also have "\<dots> = (map_of (defaultMetadata (options L)) ++ map_of (childMetadata L)
              ++ (case md of None \<Rightarrow> Map.empty | Some m \<Rightarrow> map_of m)) k"
      using map_of_error_merged [OF k, of md "truthy d" d]
      by (cases md) (simp_all add: map_of_allMetadata map_add_def)
    finally show ?thesis .
  qed
qed

theorem metadata_merge_precedence_witness:
  "map metadata
     (invoked (info scoped_logger ''m'' (Some [(''c'', JNum (num 3)), (''d'', JNum (num 3))]) quiet_world))
     = [Some [(''a'', JNum (num 1)), (''b'', JNum (num 2)), (''c'', JNum (num 3)), (''d'', JNum (num 3))]]
   \<and> map (\<lambda>e. map (\<lambda>k. Option.bind (metadata e) (\<lambda>m. map_of m k)) [''a'', ''b'', ''c'', ''d'', ''e''])
       (invoked (log scoped_logger Info ''m'' (Some [(''c'', JNum (num 3)), (''d'', JNum (num 3))]) quiet_world))
     = [[Some (JNum (num 1)), Some (JNum (num 2)), Some (JNum (num 3)), Some (JNum (num 3)), None]]"
proof -
  have inv: "invoked (log scoped_logger Info ''m'' (Some [(''c'', JNum (num 3)), (''d'', JNum (num 3))]) quiet_world)
      = [buildLogEntry scoped_logger Info ''m'' (Some [(''c'', JNum (num 3)), (''d'', JNum (num 3))]) quiet_world]"
    by (simp add: log_pass shouldLog_def scoped_logger_fields)
  show ?thesis
    using metadata_merge_precedence [where L = scoped_logger and lvl = Info and msg = "''m''"
            and md = "Some [(''c'', JNum (num 3)), (''d'', JNum (num 3))]" and w = quiet_world and err = JUndefined]
    by (simp add: inv scoped_logger_record scoped_logger_fields)
qed

section \<open>The reserved key \<open>error\<close>\<close>

text \<open>
  Claim C3, as amended.  For every record built at any level: the reserved key \<open>error\<close> never
  appears in the record's \<open>metadata\<close> field; its value in the merged metadata map becomes
  the record's \<open>error\<close> field when it is truthy, and is dropped from the record when it is
  falsy or absent; every other key of the merged map is in the \<open>metadata\<close> field with its
  value; and the \<open>metadata\<close> field is omitted (never an empty object) exactly when the merged
  map holds no key other than \<open>error\<close>.
\<close>

theorem reserved_error_key_split:
  "(\<forall>m. metadata (buildLogEntry L lvl msg md w) = Some m \<longrightarrow>
        m \<noteq> [] \<and> ''error'' \<notin> fst ` set m)
   \<and> error (buildLogEntry L lvl msg md w) =
        (if truthy (get_prop (allMetadata L md) ''error'')
         then Some (get_prop (allMetadata L md) ''error'') else None)
   \<and> (\<forall>k. k \<noteq> ''error'' \<longrightarrow>
         Option.bind (metadata (buildLogEntry L lvl msg md w)) (\<lambda>m. map_of m k)
           = map_of (allMetadata L md) k)
   \<and> ((metadata (buildLogEntry L lvl msg md w) = None)
        = (set (Object_keys (allMetadata L md)) \<subseteq> {''error''}))
   \<and> (\<forall>e \<in> set (invoked (log L lvl msg md w)). e = buildLogEntry L lvl msg md w)"
proof (intro conjI allI impI ballI)
  fix m
  assume m: "metadata (buildLogEntry L lvl msg md w) = Some m"
  from buildLogEntry_metadata_Some [OF m] show "m \<noteq> []" by blast
  from buildLogEntry_metadata_Some [OF m]
  have "m = AList.delete ''error'' (allMetadata L md)" by blast
  then show "''error'' \<notin> fst ` set m"
    by (simp only: delete_notin_dom not_False_eq_True)
next
  show "error (buildLogEntry L lvl msg md w) =
        (if truthy (get_prop (allMetadata L md) ''error'')
         then Some (get_prop (allMetadata L md) ''error'') else None)"
    by (rule buildLogEntry_error)
next
  fix k :: string
  assume "k \<noteq> ''error''"
  then show "Option.bind (metadata (buildLogEntry L lvl msg md w)) (\<lambda>m. map_of m k)
           = map_of (allMetadata L md) k"
    by (rule buildLogEntry_metadata_lookup)
next
  show "(metadata (buildLogEntry L lvl msg md w) = None)
        = (set (Object_keys (allMetadata L md)) \<subseteq> {''error''})"
    by (simp add: buildLogEntry_metadata delete_error_empty)
next
  fix e
  assume "e \<in> set (invoked (log L lvl msg md w))"
  then show "e = buildLogEntry L lvl msg md w"
    by (cases "shouldLog L lvl") (simp_all add: log_pass log_filtered)
qed

theorem reserved_error_key_split_witness:
  "metadata (buildLogEntry plain_logger Warn ''Slow query detected''
       (Some [(''error'', JStr ''timeout''), (''duration'', JNum (num 2500))]) quiet_world)
     = Some [(''duration'', JNum (num 2500))]
   \<and> [(''duration'', JNum (num 2500))] \<noteq> []
   \<and> ''error'' \<notin> fst ` set [(''duration'', JNum (num 2500))]
   \<and> error (buildLogEntry plain_logger Warn ''Slow query detected''
       (Some [(''error'', JStr ''timeout''), (''duration'', JNum (num 2500))]) quiet_world)
     = Some (JStr ''timeout'')
   \<and> ''duration'' \<noteq> ''error''
   \<and> Option.bind (metadata (buildLogEntry plain_logger Warn ''Slow query detected''
       (Some [(''error'', JStr ''timeout''), (''duration'', JNum (num 2500))]) quiet_world))
         (\<lambda>m. map_of m ''duration'') = Some (JNum (num 2500))
   \<and> invoked (log plain_logger Warn ''Slow query detected''
       (Some [(''error'', JStr ''timeout''), (''duration'', JNum (num 2500))]) quiet_world)
     = [buildLogEntry plain_logger Warn ''Slow query detected''
       (Some [(''error'', JStr ''timeout''), (''duration'', JNum (num 2500))]) quiet_world]"
proof -
  have am: "allMetadata plain_logger (Some [(''error'', JStr ''timeout''), (''duration'', JNum (num 2500))])
      = [(''error'', JStr ''timeout''), (''duration'', JNum (num 2500))]"
    by (simp add: plain_logger_allMetadata spread_def Object_keys_def get_prop_def)
  have md: "metadata (buildLogEntry plain_logger Warn ''Slow query detected''
       (Some [(''error'', JStr ''timeout''), (''duration'', JNum (num 2500))]) quiet_world)
     = Some [(''duration'', JNum (num 2500))]"
    by (simp add: buildLogEntry_metadata am AList.delete_eq)
  have inv: "invoked (log plain_logger Warn ''Slow query detected''
       (Some [(''error'', JStr ''timeout''), (''duration'', JNum (num 2500))]) quiet_world)
     = [buildLogEntry plain_logger Warn ''Slow query detected''
       (Some [(''error'', JStr ''timeout''), (''duration'', JNum (num 2500))]) quiet_world]"
    by (simp add: log_pass shouldLog_def plain_logger_fields)
  show ?thesis
    using reserved_error_key_split [where L = plain_logger and lvl = Warn
            and msg = "''Slow query detected''"
            and md = "Some [(''error'', JStr ''timeout''), (''duration'', JNum (num 2500))]"
            and w = quiet_world]
    by (simp add: md inv am get_prop_def)
qed

text \<open>
  The claim as stated fails for a falsy value: \<^verbatim>\<open>info('Processing batch', { error: 0 })\<close> on a
  default logger.  The merged map holds \<open>0\<close> under \<open>error\<close>; the record has no \<open>error\<close> field
  (and no \<open>metadata\<close> field), so the value did not become the record's \<open>error\<close> field.
\<close>

theorem reserved_error_key_split_counterexample:
  "get_prop (allMetadata plain_logger (Some [(''error'', JNum (num 0))])) ''error'' = JNum (num 0)
   \<and> map error (invoked (info plain_logger ''Processing batch''
         (Some [(''error'', JNum (num 0))]) quiet_world)) = [None]
   \<and> map metadata (invoked (info plain_logger ''Processing batch''
         (Some [(''error'', JNum (num 0))]) quiet_world)) = [None]
   \<and> \<not> (map error (invoked (info plain_logger ''Processing batch''
         (Some [(''error'', JNum (num 0))]) quiet_world)) = [Some (JNum (num 0))])"
proof -
  have am: "allMetadata plain_logger (Some [(''error'', JNum (num 0))]) = [(''error'', JNum (num 0))]"
    by (simp add: plain_logger_allMetadata spread_def Object_keys_def get_prop_def)
  show ?thesis
    by (simp add: info_def log_pass shouldLog_def plain_logger_fields buildLogEntry_error
          buildLogEntry_metadata am get_prop_def AList.delete_eq int_of_safe_num)
qed

section \<open>Serialization of an \<^verbatim>\<open>Error\<close>\<close>

text \<open>
  Claim C4, as amended.  For every \<^verbatim>\<open>Error\<close> object passed to
  \<^verbatim>\<open>error(message, errorValue, metadata?)\<close>, the record's \<open>error\<close> field is an object that holds
  \<open>name\<close>; \<open>message\<close>; \<open>stack\<close>, iff \<open>includeStackTrace\<close> is true and the error's \<^verbatim>\<open>stack\<close> is truthy
  (a stack that is the empty string is left out); and every further enumerable own
  property of the error other than \<open>name\<close>, \<open>message\<close>, \<open>stack\<close>, with its value.  With
  \<open>includeStackTrace\<close> false there is no \<open>stack\<close> key.  Nothing is said of an own property
  named \<^verbatim>\<open>__proto__\<close>.
\<close>

theorem error_object_serialization:
  "\<exists>d. map error (invoked (error_method L msg (JError n m s own) md w)) = [Some (JObj d)]
       \<and> distinct (map fst d)
       \<and> map_of d ''name'' = Some n
       \<and> map_of d ''message'' = Some m
       \<and> map_of d ''stack'' = (if includeStackTrace (options L) \<and> truthy s then Some s else None)
       \<and> (\<forall>k. k \<noteq> ''name'' \<and> k \<noteq> ''message'' \<and> k \<noteq> ''stack'' \<and> k \<noteq> ''__proto__''
              \<longrightarrow> map_of d k = map_of own k)
       \<and> (\<not> includeStackTrace (options L) \<longrightarrow> ''stack'' \<notin> fst ` set d)"
proof -
  from serializeError_Error [of L n m s own]
  obtain d where ser: "serializeError L (JError n m s own) = Return (JObj d)"
    and content: "distinct (map fst d) \<and> map_of d ''name'' = Some n \<and> map_of d ''message'' = Some m
      \<and> map_of d ''stack'' = (if includeStackTrace (options L) \<and> truthy s then Some s else None)
      \<and> (\<forall>k. k \<noteq> ''name'' \<and> k \<noteq> ''message'' \<and> k \<noteq> ''stack'' \<and> k \<noteq> ''__proto__''
              \<longrightarrow> map_of d k = map_of own k)"
    by (elim exE conjE) (rule that, assumption, intro conjI, assumption+)
  have "truthy (JObj d)" by simp
  with ser
  have field: "map error (invoked (error_method L msg (JError n m s own) md w)) = [Some (JObj d)]"
    by (rule error_method_error_truthy)
  have nostack: "\<not> includeStackTrace (options L) \<longrightarrow> ''stack'' \<notin> fst ` set d"
  proof
    assume "\<not> includeStackTrace (options L)"
    with content have "map_of d ''stack'' = None" by simp
    then show "''stack'' \<notin> fst ` set d" by (simp only: map_of_eq_None_iff not_False_eq_True)
  qed
  show ?thesis
    by (rule exI [of _ d]) (intro conjI field nostack content [THEN conjunct1]
        content [THEN conjunct2, THEN conjunct1]
        content [THEN conjunct2, THEN conjunct2, THEN conjunct1]
        content [THEN conjunct2, THEN conjunct2, THEN conjunct2, THEN conjunct1]
        content [THEN conjunct2, THEN conjunct2, THEN conjunct2, THEN conjunct2])
qed

theorem error_object_serialization_witness:
  "map error (invoked (error_method plain_logger ''Validation failed'' validation_error None
       quiet_world))
     = [Some (JObj [(''name'', JStr ''Error''), (''message'', JStr ''Invalid user input''),
           (''stack'', JStr ''Error: Invalid user input at validate''),
           (''code'', JStr ''VALIDATION_ERROR''), (''field'', JStr ''email'')])]
   \<and> map error (invoked (error_method traceless_logger ''Validation failed'' validation_error None
       quiet_world))
     = [Some (JObj [(''name'', JStr ''Error''), (''message'', JStr ''Invalid user input''),
           (''code'', JStr ''VALIDATION_ERROR''), (''field'', JStr ''email'')])]
   \<and> \<not> includeStackTrace (options traceless_logger)
   \<and> ''stack'' \<notin> fst ` set [(''name'', JStr ''Error''), (''message'', JStr ''Invalid user input''),
           (''code'', JStr ''VALIDATION_ERROR''), (''field'', JStr ''email'')]
   \<and> ''code'' \<noteq> ''name'' \<and> ''code'' \<noteq> ''message'' \<and> ''code'' \<noteq> ''stack''
   \<and> ''code'' \<noteq> ''__proto__''
   \<and> map_of [(''name'', JStr ''Error''), (''message'', JStr ''Invalid user input''),
           (''code'', JStr ''VALIDATION_ERROR''), (''field'', JStr ''email'')] ''code''
       = map_of (err_own validation_error) ''code''"
proof -
  have a: "map error (invoked (error_method plain_logger ''Validation failed'' validation_error
       None quiet_world))
     = [Some (JObj [(''name'', JStr ''Error''), (''message'', JStr ''Invalid user input''),
           (''stack'', JStr ''Error: Invalid user input at validate''),
           (''code'', JStr ''VALIDATION_ERROR''), (''field'', JStr ''email'')])]"
    by (rule error_method_error_truthy [OF serializeError_validation_error(1)]) simp
  have b: "map error (invoked (error_method traceless_logger ''Validation failed''
       validation_error None quiet_world))
     = [Some (JObj [(''name'', JStr ''Error''), (''message'', JStr ''Invalid user input''),
           (''code'', JStr ''VALIDATION_ERROR''), (''field'', JStr ''email'')])]"
    by (rule error_method_error_truthy [OF serializeError_validation_error(2)]) simp
  show ?thesis
    using error_object_serialization [where L = traceless_logger and msg = "''Validation failed''"
            and n = "JStr ''Error''" and m = "JStr ''Invalid user input''"
            and s = "JStr ''Error: Invalid user input at validate''"
            and own = "[(''code'', JStr ''VALIDATION_ERROR''), (''field'', JStr ''email'')]"
            and md = None and w = quiet_world]
    by (simp add: a b traceless_logger_fields)
       (simp add: validation_error_def)
qed

text \<open>
  The claim as stated fails for a stack that is there and falsy:
  \<^verbatim>\<open>const e = new Error('boom'); e.stack = ''; error('msg', e)\<close> on a default logger, where
  \<open>includeStackTrace\<close> is true.  The error has a \<^verbatim>\<open>stack\<close>, the empty string, and the record's
  \<open>error\<close> field has no \<open>stack\<close> key.
\<close>

theorem error_object_serialization_counterexample:
  "includeStackTrace (options plain_logger)
   \<and> err_stack stackless_error = JStr []
   \<and> map error (invoked (error_method plain_logger ''msg'' stackless_error None quiet_world))
       = [Some (JObj [(''name'', JStr ''Error''), (''message'', JStr ''boom'')])]
   \<and> map_of [(''name'', JStr ''Error''), (''message'', JStr ''boom'')] ''stack'' = None"
proof -
  have "map error (invoked (error_method plain_logger ''msg'' stackless_error None quiet_world))
       = [Some (JObj [(''name'', JStr ''Error''), (''message'', JStr ''boom'')])]"
    by (rule error_method_error_truthy [OF serializeError_stackless_error]) simp
  then show ?thesis
    by (simp add: plain_logger_fields) (simp add: stackless_error_def)
qed

section \<open>Error values that are not an \<^verbatim>\<open>Error\<close>\<close>

text \<open>
  Claim C5, as amended.  For every call \<^verbatim>\<open>error(message, errorValue, metadata?)\<close>: if
  \<open>errorValue\<close> is falsy (\<^verbatim>\<open>undefined\<close>, \<^verbatim>\<open>null\<close>, \<^verbatim>\<open>false\<close>, \<open>0\<close>, \<open>NaN\<close> or the empty string) the
  call adds no \<open>error\<close> entry, so the record's \<open>error\<close> field is the truthy \<open>error\<close> entry of
  the merged default, child and per-call metadata if there is one, and is absent otherwise;
  if \<open>errorValue\<close> is truthy and not an \<^verbatim>\<open>Error\<close>, and \<^verbatim>\<open>String(errorValue)\<close> returns a text, the
  record's \<open>error\<close> field is exactly \<open>{message: text}\<close>, with no \<open>name\<close> and no \<open>stack\<close> key.  The
  text of a string is the string itself.  Nothing is said of a value whose conversion
  throws.
\<close>

theorem non_error_value_serialization:
  "(truthy err = (err \<notin> {JUndefined, JNull, JBool False, JNum (num 0), JNaN, JStr []}))
   \<and> (\<not> truthy err \<longrightarrow>
        map error (invoked (error_method L msg err md w)) =
          [if truthy (get_prop (allMetadata L md) ''error'')
           then Some (get_prop (allMetadata L md) ''error'') else None])
   \<and> (\<not> truthy err \<and> map_of (allMetadata L md) ''error'' = None \<longrightarrow>
        map error (invoked (error_method L msg err md w)) = [None])
   \<and> (truthy err \<and> \<not> instanceof_Error err \<and> js_String err = Return rendering \<longrightarrow>
        map error (invoked (error_method L msg err md w)) =
          [Some (JObj [(''message'', JStr rendering)])])
   \<and> js_String (JStr s) = Return s"
proof (intro conjI impI)
  show "truthy err = (err \<notin> {JUndefined, JNull, JBool False, JNum (num 0), JNaN, JStr []})"
    by (cases err) (auto simp: int_of_safe_eq_0)
next
  assume "\<not> truthy err"
  then show "map error (invoked (error_method L msg err md w)) =
          [if truthy (get_prop (allMetadata L md) ''error'')
           then Some (get_prop (allMetadata L md) ''error'') else None]"
    by (rule error_method_error_falsy)
next
  assume a: "\<not> truthy err \<and> map_of (allMetadata L md) ''error'' = None"
  then have "get_prop (allMetadata L md) ''error'' = JUndefined"
    by (simp add: get_prop_def)
  with a show "map error (invoked (error_method L msg err md w)) = [None]"
    by (simp add: error_method_error_falsy)
next
  assume a: "truthy err \<and> \<not> instanceof_Error err \<and> js_String err = Return rendering"
  then have "serializeError L err = Return (JObj [(''message'', JStr rendering)])"
    by (simp add: serializeError_other)
  then show "map error (invoked (error_method L msg err md w)) =
          [Some (JObj [(''message'', JStr rendering)])]"
    by (rule error_method_error_truthy) simp
next
  show "js_String (JStr s) = Return s" by simp
qed

theorem non_error_value_serialization_witness:
  "\<not> truthy JNull
   \<and> map_of (allMetadata plain_logger None) ''error'' = None
   \<and> map error (invoked (error_method plain_logger ''msg'' JNull None quiet_world)) = [None]
   \<and> truthy (JStr ''just a string'') \<and> \<not> instanceof_Error (JStr ''just a string'')
   \<and> js_String (JStr ''just a string'') = Return ''just a string''
   \<and> map error (invoked (error_method plain_logger ''msg'' (JStr ''just a string'') None
        quiet_world))
      = [Some (JObj [(''message'', JStr ''just a string'')])]
   \<and> truthy (JNum (num 404)) \<and> \<not> instanceof_Error (JNum (num 404))
   \<and> js_String (JNum (num 404)) = Return ''404''
   \<and> map error (invoked (error_method plain_logger ''msg'' (JNum (num 404)) None quiet_world))
      = [Some (JObj [(''message'', JStr ''404'')])]"
proof -
  have none: "map_of (allMetadata plain_logger None) ''error'' = None"
    by (simp add: map_of_allMetadata plain_logger_fields)
  have digits: "js_String (JNum (num 404)) = Return ''404''"
    by (simp add: int_of_safe_num string_of_nat.simps)
  have nonzero: "truthy (JNum (num 404))"
    by (simp add: int_of_safe_num)
  show ?thesis
    using non_error_value_serialization [where L = plain_logger and msg = "''msg''"
            and err = JNull and md = None and w = quiet_world]
          non_error_value_serialization [where L = plain_logger and msg = "''msg''"
            and err = "JStr ''just a string''" and md = None and w = quiet_world
            and rendering = "''just a string''"]
          non_error_value_serialization [where L = plain_logger and msg = "''msg''"
            and err = "JNum (num 404)" and md = None and w = quiet_world
            and rendering = "''404''"]
    by (simp add: none get_prop_allMetadata_Nil plain_logger_fields digits nonzero
          del: js_String.simps(4) truthy.simps(4))
qed

text \<open>
  The claim as stated fails for a value that is falsy without being nullish:
  \<^verbatim>\<open>error('msg', '')\<close> on a default logger.  The empty string is neither \<^verbatim>\<open>undefined\<close> nor
  \<^verbatim>\<open>null\<close> nor an \<^verbatim>\<open>Error\<close>, its text is the empty string, and the record has no \<open>error\<close> field
  instead of \<open>{message: ''}\<close>.
\<close>

theorem non_error_value_serialization_counterexample:
  "JStr [] \<noteq> JUndefined \<and> JStr [] \<noteq> JNull \<and> \<not> instanceof_Error (JStr [])
   \<and> js_String (JStr []) = Return []
   \<and> map error (invoked (error_method plain_logger ''msg'' (JStr []) None quiet_world)) = [None]
   \<and> \<not> (map error (invoked (error_method plain_logger ''msg'' (JStr []) None quiet_world))
          = [Some (JObj [(''message'', JStr [])])])"
  by (simp add: error_method_error_falsy get_prop_allMetadata_Nil plain_logger_fields)

section \<open>Context enrichment\<close>



section \<open>Child loggers\<close>




section \<open>Timestamps\<close>

text \<open>
  Claim C8.  The timestamp of a record is the clock reading at the moment the record is
  built inside the logging call, before the output function runs and whatever time the
  output function takes.  So for two sequential calls on the same logger that pass the
  filter, under a clock that does not go back (neither while the first output function
  runs nor between the calls), the second record's timestamp is not earlier than the
  first's.
\<close>

theorem timestamp_monotone:
  "shouldLog L lvl1 \<and> shouldLog L lvl2
   \<and> now w1 \<le> now (after (log L lvl1 msg1 md1 w1))
   \<and> now (after (log L lvl1 msg1 md1 w1)) \<le> now w2 \<longrightarrow>
     (\<exists>e1 e2. invoked (log L lvl1 msg1 md1 w1) = [e1]
        \<and> invoked (log L lvl2 msg2 md2 w2) = [e2]
        \<and> timestamp e1 = now w1 \<and> timestamp e2 = now w2
        \<and> timestamp e1 \<le> timestamp e2)"
proof
  assume a: "shouldLog L lvl1 \<and> shouldLog L lvl2
   \<and> now w1 \<le> now (after (log L lvl1 msg1 md1 w1))
   \<and> now (after (log L lvl1 msg1 md1 w1)) \<le> now w2"
  then have le: "now w1 \<le> now w2" by linarith
  from a have i1: "invoked (log L lvl1 msg1 md1 w1) = [buildLogEntry L lvl1 msg1 md1 w1]"
    by (simp add: log_pass)
  from a have i2: "invoked (log L lvl2 msg2 md2 w2) = [buildLogEntry L lvl2 msg2 md2 w2]"
    by (simp add: log_pass)
  from le show "\<exists>e1 e2. invoked (log L lvl1 msg1 md1 w1) = [e1]
        \<and> invoked (log L lvl2 msg2 md2 w2) = [e2]
        \<and> timestamp e1 = now w1 \<and> timestamp e2 = now w2
        \<and> timestamp e1 \<le> timestamp e2"
    by (simp add: i1 i2 buildLogEntry_timestamp)
qed

theorem timestamp_monotone_witness:
  "shouldLog slow_logger Info \<and> shouldLog slow_logger Warn
   \<and> now (after (log slow_logger Info ''Request 1 started'' None quiet_world)) = 1005
   \<and> map timestamp (invoked (log slow_logger Info ''Request 1 started'' None quiet_world))
       = [1000]
   \<and> map timestamp (invoked (log slow_logger Warn ''Request 1 completed'' None
         (after (log slow_logger Info ''Request 1 started'' None quiet_world))))
       = [1005]"
proof -
  have pass: "shouldLog slow_logger Info" "shouldLog slow_logger Warn"
    by (simp_all add: shouldLog_def slow_logger_fields)
  have now_quiet: "now quiet_world = 1000"
    by (simp add: quiet_world_def)
  have aft: "now (after (log slow_logger Info ''Request 1 started'' None quiet_world)) = 1005"
    by (simp add: log_pass pass slow_logger_fields slow_output_def now_quiet)
  show ?thesis
    using timestamp_monotone [where L = slow_logger and ?lvl1.0 = Info and ?lvl2.0 = Warn
            and ?msg1.0 = "''Request 1 started''" and ?md1.0 = None and ?w1.0 = quiet_world
            and ?msg2.0 = "''Request 1 completed''" and ?md2.0 = None
            and ?w2.0 = "after (log slow_logger Info ''Request 1 started'' None quiet_world)"]
    by (auto simp: pass aft now_quiet)
qed

section \<open>The error argument and the reserved key\<close>



section \<open>A throwing output function\<close>

text \<open>
  Claim C10.  If the configured output function throws when invoked with a record, the
  thrown value propagates out of the logging method (\<open>debug\<close>, \<open>info\<close>, \<open>warn\<close>, \<open>error\<close>) to
  the caller: the dispatch \<open>log\<close> calls it unguarded, so whatever it throws is what the call
  throws.
\<close>

theorem output_exception_propagates:
  "(shouldLog L lvl \<longrightarrow>
      thrown (log L lvl msg md w) = fst (output (options L) (buildLogEntry L lvl msg md w) w))
   \<and> (\<forall>e. invoked (log L lvl msg md w) = [e] \<and> fst (output (options L) e w) = Some x
         \<longrightarrow> thrown (log L lvl msg md w) = Some x)
   \<and> (\<forall>e. invoked (debug L msg md w) = [e] \<and> fst (output (options L) e w) = Some x
         \<longrightarrow> thrown (debug L msg md w) = Some x)
   \<and> (\<forall>e. invoked (info L msg md w) = [e] \<and> fst (output (options L) e w) = Some x
         \<longrightarrow> thrown (info L msg md w) = Some x)
   \<and> (\<forall>e. invoked (warn L msg md w) = [e] \<and> fst (output (options L) e w) = Some x
         \<longrightarrow> thrown (warn L msg md w) = Some x)
   \<and> (\<forall>e. invoked (error_method L msg err md w) = [e] \<and> fst (output (options L) e w) = Some x
         \<longrightarrow> thrown (error_method L msg err md w) = Some x)"
proof -
  have propagate: "thrown (log L l msg m w) = Some x"
    if "invoked (log L l msg m w) = [e]" and "fst (output (options L) e w) = Some x" for l m e
  proof (cases "shouldLog L l")
    case True
    with that show ?thesis by (simp add: log_pass)
  next
    case False
    with that show ?thesis by (simp add: log_filtered)
  qed
  have first: "shouldLog L lvl \<longrightarrow>
      thrown (log L lvl msg md w) = fst (output (options L) (buildLogEntry L lvl msg md w) w)"
    by (simp add: log_pass)
  have by_error: "thrown (error_method L msg err md w) = Some x"
    if "invoked (error_method L msg err md w) = [e]" and "fst (output (options L) e w) = Some x"
    for e
  proof (cases "serializeError L err")
    case (Throw y)
    with that(1) show ?thesis by (simp add: error_method_Throw)
  next
    case (Return d)
    with that show ?thesis by (simp add: error_method_Return propagate)
  qed
  show ?thesis
    unfolding debug_def info_def warn_def
    using first propagate by_error by blast
qed

theorem output_exception_propagates_witness:
  "shouldLog fragile_logger Debug
   \<and> thrown (log fragile_logger Debug ''Validating order'' None quiet_world)
       = Some (Thrown (JStr ''sink unreachable''))
   \<and> invoked (debug fragile_logger ''Validating order'' None quiet_world)
       = [buildLogEntry fragile_logger Debug ''Validating order'' None quiet_world]
   \<and> fst (output (options fragile_logger)
         (buildLogEntry fragile_logger Debug ''Validating order'' None quiet_world) quiet_world)
       = Some (Thrown (JStr ''sink unreachable''))
   \<and> thrown (debug fragile_logger ''Validating order'' None quiet_world)
       = Some (Thrown (JStr ''sink unreachable''))
   \<and> thrown (error_method fragile_logger ''Operation failed'' (JStr ''boom'') None quiet_world)
       = Some (Thrown (JStr ''sink unreachable''))"
proof -
  have pass: "shouldLog fragile_logger l" for l
    by (cases l) (simp_all add: shouldLog_def fragile_logger_fields)
  have thr: "fst (output (options fragile_logger) e quiet_world) = Some (Thrown (JStr ''sink unreachable''))"
    for e
    by (simp add: fragile_logger_fields failing_output_def)
  have boom: "serializeError fragile_logger (JStr ''boom'')
      = Return (JObj [(''message'', JStr ''boom'')])"
    by (simp add: serializeError_other)
  have inv: "invoked (debug fragile_logger ''Validating order'' None quiet_world)
       = [buildLogEntry fragile_logger Debug ''Validating order'' None quiet_world]"
    by (simp add: debug_def log_pass pass)
  show ?thesis
    using output_exception_propagates [where L = fragile_logger and lvl = Debug
            and msg = "''Validating order''" and md = None and w = quiet_world
            and x = "Thrown (JStr ''sink unreachable'')" and err = JUndefined]
          output_exception_propagates [where L = fragile_logger and lvl = Debug
            and msg = "''Operation failed''" and md = None and w = quiet_world
            and x = "Thrown (JStr ''sink unreachable'')" and err = "JStr ''boom''"]
    by (simp add: pass thr inv error_method_invoked [OF boom])
qed

end
